theory Spec2Isabelle
  imports Main "HOL-Library.AList"
begin

section \<open>Subscriber preference resolution (application-generic use cases)\<close>

text \<open>
  A shallow embedding of
  \<^verbatim>\<open>get-subscriber-template-preference.usecase.ts\<close> (the single-workflow resolution) and
  \<^verbatim>\<open>get-subscriber-preference.usecase.ts\<close> (the batch over the active workflows).
  The repositories are collaborators outside these two files; they are passed in as a record
  of functions, so every theorem holds for whatever they return.
\<close>

subsection \<open>Data model\<close>

text \<open>
  The values a step's \<^verbatim>\<open>active\<close> attribute can hold at run time. The entity declares
  it as an optional boolean; the filter compares with \<^verbatim>\<open>=== true\<close>, so the model keeps the
  other JavaScript values apart from the boolean \<^verbatim>\<open>true\<close>.
\<close>

datatype jsval = JUndefined | JNull | JBool bool | JNumber int | JString string

text \<open>
  \<^verbatim>\<open>IPreferenceChannels\<close> is a plain object from channel name to boolean. Channel and step
  types are string enums, object keys are strings. The object is an association list in
  insertion order; a well-formed object has no repeated key (\<open>distinct (map fst obj)\<close>).
\<close>

type_synonym IPreferenceChannels = "(string \<times> bool) list"

record MessageTemplateEntity =
  mt_id :: string
  mt_type :: string

record NotificationStepEntity =
  active :: jsval
  step_templateId :: string
  step_template :: "MessageTemplateEntity option"

record NotificationTemplateEntity =
  tmpl_id :: string
  name :: string
  critical :: "bool option"
  steps :: "NotificationStepEntity list"
  preferenceSettings :: "IPreferenceChannels option"

record SubscriberEntity =
  sub_id :: string

record SubscriberPreferenceEntity =
  pref_enabled :: "bool option"
  pref_channels :: "IPreferenceChannels option"

record MemberEntity =
  userId :: string

record GetSubscriberTemplatePreferenceCommand =
  organizationId :: string
  subscriberId :: string
  environmentId :: string
  template :: NotificationTemplateEntity
  subscriber :: "SubscriberEntity option"

record GetSubscriberPreferenceCommand =
  b_organizationId :: string
  b_subscriberId :: string
  b_environmentId :: string

datatype override_source = Source_template | Source_subscriber

record IPreferenceOverride =
  ov_channel :: string
  ov_source :: override_source

record ITemplateConfiguration =
  rt_id :: string
  rt_name :: string
  rt_critical :: bool

text \<open>
  The \<^verbatim>\<open>preference\<close> part of \<^verbatim>\<open>ISubscriberPreferenceResponse\<close>. The interface declares
  \<^verbatim>\<open>enabled\<close>, \<^verbatim>\<open>channels\<close> and \<^verbatim>\<open>overrides\<close>; a property that the returned object
  literal does not have reads as \<^verbatim>\<open>undefined\<close>, which is \<open>None\<close> here.
\<close>

record preference_part =
  enabled :: bool
  channels :: IPreferenceChannels
  overrides :: "IPreferenceOverride list option"

record ISubscriberPreferenceResponse =
  resp_template :: ITemplateConfiguration
  resp_preference :: preference_part

datatype error = ApiException string

text \<open>One call of \<^verbatim>\<open>analyticsService.track\<close>: event name, actor and the two properties.\<close>

record track_event =
  ev_name :: string
  ev_userId :: string
  ev_organization :: string
  ev_templatesSize :: nat

text \<open>
  The injected repositories. \<open>findBySubscriberId environmentId subscriberId\<close>,
  \<open>findOne environmentId subscriberDbId templateId\<close>,
  \<open>find_mt environmentId ids\<close> (message templates with \<^verbatim>\<open>_id $in ids\<close>),
  \<open>getOrganizationAdminAccount organizationId\<close>,
  \<open>getActiveList organizationId environmentId flag\<close>.
\<close>

record repositories =
  findBySubscriberId :: "string \<Rightarrow> string \<Rightarrow> SubscriberEntity option"
  findOne :: "string \<Rightarrow> string \<Rightarrow> string \<Rightarrow> SubscriberPreferenceEntity option"
  find_mt :: "string \<Rightarrow> string list \<Rightarrow> MessageTemplateEntity list"
  getOrganizationAdminAccount :: "string \<Rightarrow> MemberEntity option"
  getActiveList :: "string \<Rightarrow> string \<Rightarrow> bool \<Rightarrow> NotificationTemplateEntity list"

subsection \<open>JavaScript object and array primitives\<close>

definition Object_keys :: "IPreferenceChannels \<Rightarrow> string list" where
  "Object_keys obj = map fst obj"

text \<open>
  \<^verbatim>\<open>Object.assign(target, source)\<close>: every own property of the source is set on the target,
  in order; setting an existing key overwrites in place, a new key is appended.
\<close>

definition Object_assign :: "IPreferenceChannels \<Rightarrow> IPreferenceChannels \<Rightarrow> IPreferenceChannels" where
  "Object_assign target source = fold (\<lambda>(k, v) acc. AList.update k v acc) source target"

text \<open>\<^verbatim>\<open>[...new Set(xs)]\<close>: a Set keeps insertion order and ignores a value it already holds.\<close>

definition Set_spread :: "'a list \<Rightarrow> 'a list" where
  "Set_spread xs = fold (\<lambda>x s. if x \<in> set s then s else s @ [x]) xs []"

subsection \<open>Active channels\<close>

definition queryActiveChannels ::
  "repositories \<Rightarrow> GetSubscriberTemplatePreferenceCommand \<Rightarrow> string list" where
  "queryActiveChannels R command =
    (let activeSteps = filter (\<lambda>step. active step = JBool True) (steps (template command));
         stepMissingMessageTemplate = list_ex (\<lambda>step. step_template step = None) activeSteps
     in if stepMissingMessageTemplate then
          (let messageIds = map step_templateId activeSteps;
               messageTemplates = find_mt R (environmentId command) messageIds
           in Set_spread (map mt_type messageTemplates))
        else
          fold (\<lambda>channel list. if channel \<in> set list then list else list @ [channel])
            (map (\<lambda>item. mt_type (the (step_template item))) activeSteps) [])"

subsection \<open>Module-level helpers\<close>

definition filterActiveChannels ::
  "string list \<Rightarrow> IPreferenceChannels option \<Rightarrow> IPreferenceChannels" where
  "filterActiveChannels activeChannels preference =
    (case preference of
       None \<Rightarrow> []
     | Some p \<Rightarrow>
         fold (\<lambda>key filteredChannels.
                 if \<not> list_ex (\<lambda>channel. channel = key) activeChannels
                 then AList.delete key filteredChannels else filteredChannels)
           (Object_keys p) (Object_assign [] p))"

definition getResponse ::
  "ITemplateConfiguration \<Rightarrow> bool \<Rightarrow> IPreferenceChannels option \<Rightarrow> string list
     \<Rightarrow> ISubscriberPreferenceResponse" where
  "getResponse responseTemplate subscriberPreferenceEnabled subscriberPreferenceChannels activeChannels =
    \<lparr> resp_template = responseTemplate,
      resp_preference = \<lparr> enabled = subscriberPreferenceEnabled,
                     channels = filterActiveChannels activeChannels subscriberPreferenceChannels,
                     overrides = None \<rparr> \<rparr>"

definition fallback_channels :: IPreferenceChannels where
  "fallback_channels =
    [(''email'', True), (''sms'', True), (''in_app'', True), (''chat'', True), (''push'', True)]"

definition getNoSettingFallback ::
  "ITemplateConfiguration \<Rightarrow> string list \<Rightarrow> ISubscriberPreferenceResponse" where
  "getNoSettingFallback tmpl activeChannels =
    getResponse tmpl True (Some fallback_channels) activeChannels"

definition mapResponseTemplate :: "NotificationTemplateEntity \<Rightarrow> ITemplateConfiguration" where
  "mapResponseTemplate tmpl =
    \<lparr> rt_id = tmpl_id tmpl,
      rt_name = name tmpl,
      rt_critical = (case critical tmpl of Some c \<Rightarrow> c | None \<Rightarrow> True) \<rparr>"

definition subscriberPreferenceIsWhole ::
  "IPreferenceChannels option \<Rightarrow> string list option \<Rightarrow> bool" where
  "subscriberPreferenceIsWhole preference activeChannels =
    (case (preference, activeChannels) of
       (Some p, Some a) \<Rightarrow> length (Object_keys p) = length a
     | _ \<Rightarrow> False)"

subsection \<open>The single-workflow resolution\<close>

text \<open>
  \<^verbatim>\<open>command.subscriber ?? (await this.subscriberRepository.findBySubscriberId(...))\<close>:
  the subscriber of the command when it carries one, else the one the repository finds.
\<close>

definition resolved_subscriber ::
  "repositories \<Rightarrow> GetSubscriberTemplatePreferenceCommand \<Rightarrow> SubscriberEntity option" where
  "resolved_subscriber R command =
    (case subscriber command of
       Some s \<Rightarrow> Some s
     | None \<Rightarrow> findBySubscriberId R (environmentId command) (subscriberId command))"

definition execute ::
  "repositories \<Rightarrow> GetSubscriberTemplatePreferenceCommand
     \<Rightarrow> error + ISubscriberPreferenceResponse" where
  "execute R command =
    (let activeChannels = queryActiveChannels R command
     in case resolved_subscriber R command of
          None \<Rightarrow> Inl (ApiException (''Subscriber '' @ subscriberId command @ '' not found''))
        | Some sub \<Rightarrow>
            (let subscriberPreference =
                   findOne R (environmentId command) (sub_id sub) (tmpl_id (template command));
                 responseTemplate = mapResponseTemplate (template command);
                 subscriberPreferenceEnabled =
                   (case Option.bind subscriberPreference pref_enabled of
                      Some b \<Rightarrow> b | None \<Rightarrow> True);
                 subscriberChannels = Option.bind subscriberPreference pref_channels
             in if subscriberPreferenceIsWhole subscriberChannels (Some activeChannels) then
                  Inr (getResponse responseTemplate subscriberPreferenceEnabled
                         subscriberChannels activeChannels)
                else
                  (case preferenceSettings (template command) of
                     Some templatePreference \<Rightarrow>
                       (case subscriberChannels of
                          None \<Rightarrow>
                            Inr (getResponse responseTemplate subscriberPreferenceEnabled
                                   (Some templatePreference) activeChannels)
                        | Some ch \<Rightarrow>
                            (let mergedPreference =
                                   Object_assign (Object_assign [] templatePreference) ch
                             in Inr (getResponse responseTemplate subscriberPreferenceEnabled
                                       (Some mergedPreference) activeChannels)))
                   | None \<Rightarrow> Inr (getNoSettingFallback responseTemplate activeChannels))))"

subsection \<open>The batch over the active workflows\<close>

text \<open>
  \<^verbatim>\<open>Promise.all\<close> over the mapped list: the results in the order of the input, or a rejection
  when one of them rejects.
\<close>

fun Promise_all :: "(error + 'a) list \<Rightarrow> error + 'a list" where
  "Promise_all [] = Inr []"
| "Promise_all (p # ps) =
    (case p of
       Inl e \<Rightarrow> Inl e
     | Inr r \<Rightarrow> (case Promise_all ps of Inl e \<Rightarrow> Inl e | Inr rs \<Rightarrow> Inr (r # rs)))"

text \<open>
  Modelled from the spec: the command class \<^verbatim>\<open>GetSubscriberTemplatePreferenceCommand\<close> is
  not part of the two files. Its \<^verbatim>\<open>create\<close> is taken to build the command from the fields
  it is given ("for each workflow invoke PreferenceResolutionService"); the batch passes no
  subscriber entity.
\<close>

definition create ::
  "GetSubscriberPreferenceCommand \<Rightarrow> NotificationTemplateEntity
     \<Rightarrow> GetSubscriberTemplatePreferenceCommand" where
  "create command tmpl =
    \<lparr> organizationId = b_organizationId command,
      subscriberId = b_subscriberId command,
      environmentId = b_environmentId command,
      template = tmpl,
      subscriber = None \<rparr>"

text \<open>The batch returns the tracked analytics events next to the result.\<close>

definition execute_batch ::
  "repositories \<Rightarrow> GetSubscriberPreferenceCommand
     \<Rightarrow> track_event list \<times> (error + ISubscriberPreferenceResponse list)" where
  "execute_batch R command =
    (let admin = getOrganizationAdminAccount R (b_organizationId command);
         templateList = getActiveList R (b_organizationId command) (b_environmentId command) True;
         tracked = (case admin of
                      Some a \<Rightarrow>
                        [\<lparr> ev_name = ''Fetch User Preferences - [Notification Center]'',
                           ev_userId = userId a,
                           ev_organization = b_organizationId command,
                           ev_templatesSize = length templateList \<rparr>]
                    | None \<Rightarrow> [])
     in (tracked, Promise_all (map (\<lambda>tmpl. execute R (create command tmpl)) templateList)))"

subsection \<open>Reference notions used to state the properties\<close>

text \<open>
  Pruning a channel map to the active channels, as the specification words it: drop every
  key that is not an active channel, keep the others as they are.
\<close>

definition prune :: "string list \<Rightarrow> IPreferenceChannels \<Rightarrow> IPreferenceChannels" where
  "prune activeChannels m = filter (\<lambda>(k, v). k \<in> set activeChannels) m"

text \<open>
  Collecting in first-seen order, as the specification words it: the first element stays
  in front and its later repetitions are dropped.
\<close>

fun first_seen :: "'a list \<Rightarrow> 'a list" where
  "first_seen [] = []"
| "first_seen (x # xs) = x # filter (\<lambda>y. y \<noteq> x) (first_seen xs)"

abbreviation activeSteps_of :: "NotificationTemplateEntity \<Rightarrow> NotificationStepEntity list" where
  "activeSteps_of tmpl \<equiv> filter (\<lambda>step. active step = JBool True) (steps tmpl)"

abbreviation stored_preference ::
  "repositories \<Rightarrow> GetSubscriberTemplatePreferenceCommand \<Rightarrow> SubscriberEntity
     \<Rightarrow> SubscriberPreferenceEntity option" where
  "stored_preference R command sub \<equiv>
     findOne R (environmentId command) (sub_id sub) (tmpl_id (template command))"

subsection \<open>A concrete workflow, used to run the definitions\<close>

text \<open>
  The workflow of the specification's end-to-end example: two active steps (email, sms) and
  one disabled step (push). The default preference and the stored preference are parameters.
  A step built by \<open>demo_step\<close> embeds its message template, one built by \<open>demo_step_ref\<close>
  only refers to it; the message template repository of the example finds, for the id
  \<^verbatim>\<open>mt_<type>\<close>, a message template of that type.
\<close>

definition demo_step :: "jsval \<Rightarrow> string \<Rightarrow> NotificationStepEntity" where
  "demo_step a ty =
    \<lparr> active = a, step_templateId = ''mt_'' @ ty,
      step_template = Some \<lparr> mt_id = ''mt_'' @ ty, mt_type = ty \<rparr> \<rparr>"

definition demo_step_ref :: "jsval \<Rightarrow> string \<Rightarrow> NotificationStepEntity" where
  "demo_step_ref a ty = \<lparr> active = a, step_templateId = ''mt_'' @ ty, step_template = None \<rparr>"

definition demo_workflow :: "IPreferenceChannels option \<Rightarrow> NotificationTemplateEntity" where
  "demo_workflow d =
    \<lparr> tmpl_id = ''wf1'', name = ''demo'', critical = None,
      steps = [demo_step (JBool True) ''email'', demo_step (JBool True) ''sms'',
               demo_step (JBool False) ''push''],
      preferenceSettings = d \<rparr>"

definition demo_repos ::
  "SubscriberPreferenceEntity option \<Rightarrow> IPreferenceChannels option \<Rightarrow> repositories" where
  "demo_repos sp d =
    \<lparr> findBySubscriberId = (\<lambda>env sid. if sid = ''sub1'' then Some \<lparr> sub_id = ''db1'' \<rparr> else None),
      findOne = (\<lambda>env sid tid. sp),
      find_mt = (\<lambda>env ids. map (\<lambda>i. \<lparr> mt_id = i, mt_type = drop 3 i \<rparr>) ids),
      getOrganizationAdminAccount = (\<lambda>org. None),
      getActiveList = (\<lambda>org env flag. [demo_workflow d, demo_workflow None]) \<rparr>"

definition demo_command ::
  "string \<Rightarrow> IPreferenceChannels option \<Rightarrow> GetSubscriberTemplatePreferenceCommand" where
  "demo_command sid d =
    \<lparr> organizationId = ''org'', subscriberId = sid, environmentId = ''env'',
      template = demo_workflow d, subscriber = None \<rparr>"

text \<open>Stored preferences and a default preference for the example.\<close>

definition stored_sms_only :: SubscriberPreferenceEntity where
  "stored_sms_only = \<lparr> pref_enabled = None, pref_channels = Some [(''sms'', True)] \<rparr>"

definition stored_wrong_keys :: SubscriberPreferenceEntity where
  "stored_wrong_keys =
    \<lparr> pref_enabled = None, pref_channels = Some [(''push'', True), (''chat'', False)] \<rparr>"

definition stored_disabled :: SubscriberPreferenceEntity where
  "stored_disabled = \<lparr> pref_enabled = Some False, pref_channels = None \<rparr>"

definition default_email_sms :: IPreferenceChannels where
  "default_email_sms = [(''email'', True), (''sms'', False)]"

definition demo_batch_command :: GetSubscriberPreferenceCommand where
  "demo_batch_command =
    \<lparr> b_organizationId = ''org'', b_subscriberId = ''sub1'', b_environmentId = ''env'' \<rparr>"

abbreviation activeWorkflows ::
  "repositories \<Rightarrow> GetSubscriberPreferenceCommand \<Rightarrow> NotificationTemplateEntity list" where
  "activeWorkflows R command \<equiv>
     getActiveList R (b_organizationId command) (b_environmentId command) True"

section \<open>Properties\<close>

subsection \<open>Objects\<close>

lemma update_fresh: "k \<notin> fst ` set t \<Longrightarrow> AList.update k v t = t @ [(k, v)]"
  by (induction t) auto

lemma keys_Object_assign:
  "fst ` set (Object_assign t s) = fst ` set t \<union> fst ` set s"
  unfolding Object_assign_def
proof (induction s arbitrary: t)
  case Nil
  then show ?case by simp
next
  case (Cons p s)
  obtain k v where p: "p = (k, v)" by (cases p)
  have "fst ` set (AList.update k v t) = insert k (fst ` set t)"
    by (simp add: AList.dom_update)
  then show ?case using p by (simp add: Cons.IH)
qed

lemma distinct_Object_assign:
  "distinct (map fst t) \<Longrightarrow> distinct (map fst (Object_assign t s))"
  unfolding Object_assign_def
  by (induction s arbitrary: t) (auto simp: AList.distinct_update)

lemma Object_assign_distinct:
  "distinct (map fst (t @ s)) \<Longrightarrow> Object_assign t s = t @ s"
  unfolding Object_assign_def
proof (induction s arbitrary: t)
  case Nil
  then show ?case by simp
next
  case (Cons p s)
  obtain k v where p: "p = (k, v)" by (cases p)
  from Cons.prems p have fresh: "k \<notin> fst ` set t" by auto
  from Cons.prems p have "distinct (map fst ((t @ [(k, v)]) @ s))" by auto
  from Cons.IH[OF this] show ?case using fresh p by (simp add: update_fresh)
qed

lemma Object_assign_copy: "distinct (map fst p) \<Longrightarrow> Object_assign [] p = p"
  using Object_assign_distinct[of "[]" p] by simp

lemma map_of_Object_assign:
  "distinct (map fst s) \<Longrightarrow> map_of (Object_assign t s) = map_of t ++ map_of s"
  unfolding Object_assign_def
proof (induction s arbitrary: t)
  case Nil
  then show ?case by simp
next
  case (Cons p s)
  obtain k v where p: "p = (k, v)" by (cases p)
  from Cons.prems p have k: "k \<notin> fst ` set s" and d: "distinct (map fst s)" by auto
  have "map_of s k = None" using k by (simp add: map_of_eq_None_iff)
  then show ?case using Cons.IH[OF d] p
    by (auto simp: AList.update_conv' map_add_def fun_eq_iff split: option.splits)
qed

lemma delete_loop:
  "fold (\<lambda>key filteredChannels.
           if \<not> list_ex (\<lambda>channel. channel = key) a
           then AList.delete key filteredChannels else filteredChannels) ks fc
   = filter (\<lambda>p. fst p \<in> set a \<or> fst p \<notin> set ks) fc"
proof (induction ks arbitrary: fc)
  case Nil
  then show ?case by simp
next
  case (Cons k ks)
  show ?case
  proof (cases "list_ex (\<lambda>channel. channel = k) a")
    case True
    then have "k \<in> set a" by (simp add: list_ex_iff)
    then show ?thesis using True by (auto simp: Cons.IH intro: filter_cong)
  next
    case False
    then have "k \<notin> set a" by (simp add: list_ex_iff)
    then show ?thesis using False
      by (auto simp: Cons.IH AList.delete_eq case_prod_unfold intro: filter_cong)
  qed
qed

lemma filterActiveChannels_restrict:
  "filterActiveChannels a (Some p) = AList.restrict (set a) (Object_assign [] p)"
proof -
  have keys: "fst ` set (Object_assign [] p) = set (Object_keys p)"
    by (simp add: keys_Object_assign Object_keys_def)
  show ?thesis
    unfolding filterActiveChannels_def
    apply (simp add: delete_loop AList.restrict_eq)
    apply (rule filter_cong[OF refl])
    using keys by auto
qed

lemma filterActiveChannels_wf:
  "distinct (map fst p) \<Longrightarrow> filterActiveChannels a (Some p) = AList.restrict (set a) p"
  by (simp add: filterActiveChannels_restrict Object_assign_copy)

lemma filterActiveChannels_undefined: "filterActiveChannels a None = []"
  by (simp add: filterActiveChannels_def)

lemma keys_filterActiveChannels:
  "set (Object_keys (filterActiveChannels a p)) \<subseteq> set a"
proof (cases p)
  case None
  then show ?thesis by (simp add: filterActiveChannels_def Object_keys_def)
next
  case (Some m)
  then show ?thesis
    by (auto simp: filterActiveChannels_restrict Object_keys_def AList.restrict_eq)
qed

lemma filterActiveChannels_prune:
  "distinct (map fst p) \<Longrightarrow> filterActiveChannels a (Some p) = prune a p"
  by (simp add: filterActiveChannels_wf prune_def AList.restrict_eq case_prod_unfold)

lemma map_of_prune:
  "map_of (prune a m) k = (if k \<in> set a then map_of m k else None)"
  by (induction m) (auto simp: prune_def)

lemma distinct_prune: "distinct (map fst m) \<Longrightarrow> distinct (map fst (prune a m))"
  by (simp add: prune_def distinct_map_filter)

lemma prune_disjoint: "set (map fst m) \<inter> set a = {} \<Longrightarrow> prune a m = []"
  by (auto simp: prune_def filter_empty_conv)

subsection \<open>First-seen order\<close>

lemma set_first_seen: "set (first_seen xs) = set xs"
  by (induction xs) auto

lemma distinct_first_seen: "distinct (first_seen xs)"
  by (induction xs) (auto simp: set_first_seen)

lemma push_unique_fold:
  "fold (\<lambda>x s. if x \<in> set s then s else s @ [x]) xs acc
     = acc @ filter (\<lambda>x. x \<notin> set acc) (first_seen xs)"
proof (induction xs arbitrary: acc)
  case Nil
  then show ?case by simp
next
  case (Cons x xs)
  show ?case
  proof (cases "x \<in> set acc")
    case True
    then have "filter (\<lambda>y. y \<notin> set acc) (filter (\<lambda>y. y \<noteq> x) (first_seen xs))
                 = filter (\<lambda>y. y \<notin> set acc) (first_seen xs)"
      by (auto intro: filter_cong)
    with True show ?thesis by (simp add: Cons.IH)
  next
    case False
    have "filter (\<lambda>y. y \<notin> set (acc @ [x])) (first_seen xs)
            = filter (\<lambda>y. y \<notin> set acc) (filter (\<lambda>y. y \<noteq> x) (first_seen xs))"
      by (auto intro: filter_cong)
    with False show ?thesis by (simp add: Cons.IH)
  qed
qed

lemma Set_spread_first_seen: "Set_spread xs = first_seen xs"
  by (simp add: Set_spread_def push_unique_fold)

lemma first_seen_rev_remdups: "first_seen xs = rev (remdups (rev xs))"
proof (induction xs)
  case Nil
  then show ?case by simp
next
  case (Cons x xs)
  have "remdups (ys @ [x]) = filter (\<lambda>y. y \<noteq> x) (remdups ys) @ [x]" for ys
    by (induction ys) auto
  then show ?case by (simp add: Cons.IH rev_filter)
qed

subsection \<open>Active channel resolution\<close>

lemma queryActiveChannels_cases:
  "queryActiveChannels R command =
     (if \<exists>step \<in> set (activeSteps_of (template command)). step_template step = None
      then first_seen (map mt_type (find_mt R (environmentId command)
              (map step_templateId (activeSteps_of (template command)))))
      else first_seen (map (\<lambda>item. mt_type (the (step_template item)))
              (activeSteps_of (template command))))"
  by (auto simp: queryActiveChannels_def Let_def list_ex_iff Set_spread_first_seen
      push_unique_fold[where acc = "[]", simplified])

lemma queryActiveChannels_distinct: "distinct (queryActiveChannels R command)"
  by (simp add: queryActiveChannels_cases distinct_first_seen)

lemma queryActiveChannels_preferenceSettings:
  "queryActiveChannels R (command\<lparr>template := (template command)\<lparr>preferenceSettings := d\<rparr>\<rparr>)
     = queryActiveChannels R command"
  by (simp add: queryActiveChannels_def Let_def)

lemma queryActiveChannels_depends_on_active_steps:
  assumes "activeSteps_of t1 = activeSteps_of t2"
  shows "queryActiveChannels R (command\<lparr>template := t1\<rparr>)
           = queryActiveChannels R (command\<lparr>template := t2\<rparr>)"
  using assms by (simp add: queryActiveChannels_def Let_def)

subsection \<open>The resolution, branch by branch\<close>

lemma execute_found:
  assumes "resolved_subscriber R command = Some sub"
  shows "execute R command =
    (let activeChannels = queryActiveChannels R command;
         subscriberPreference = stored_preference R command sub;
         responseTemplate = mapResponseTemplate (template command);
         subscriberPreferenceEnabled =
           (case Option.bind subscriberPreference pref_enabled of Some b \<Rightarrow> b | None \<Rightarrow> True);
         subscriberChannels = Option.bind subscriberPreference pref_channels
     in if subscriberPreferenceIsWhole subscriberChannels (Some activeChannels) then
          Inr (getResponse responseTemplate subscriberPreferenceEnabled
                 subscriberChannels activeChannels)
        else
          (case preferenceSettings (template command) of
             Some templatePreference \<Rightarrow>
               (case subscriberChannels of
                  None \<Rightarrow>
                    Inr (getResponse responseTemplate subscriberPreferenceEnabled
                           (Some templatePreference) activeChannels)
                | Some ch \<Rightarrow>
                    Inr (getResponse responseTemplate subscriberPreferenceEnabled
                           (Some (Object_assign (Object_assign [] templatePreference) ch))
                           activeChannels))
           | None \<Rightarrow> Inr (getNoSettingFallback responseTemplate activeChannels)))"
  using assms by (simp add: execute_def Let_def cong: option.case_cong)

lemma execute_not_found:
  assumes "resolved_subscriber R command = None"
  shows "execute R command =
           Inl (ApiException (''Subscriber '' @ subscriberId command @ '' not found''))"
  using assms by (simp add: execute_def Let_def)

lemma execute_returns_getResponse:
  assumes "execute R command = Inr r"
  shows "\<exists>e p. r = getResponse (mapResponseTemplate (template command)) e p
                     (queryActiveChannels R command)"
proof (cases "resolved_subscriber R command")
  case None
  with assms show ?thesis by (simp add: execute_not_found)
next
  case (Some sub)
  with assms show ?thesis
    unfolding execute_found[OF Some] Let_def getNoSettingFallback_def
    by (auto split: if_splits option.splits)
qed

lemma execute_never_sets_overrides:
  assumes "execute R command = Inr r"
  shows "overrides (resp_preference r) = None"
  using execute_returns_getResponse[OF assms] by (auto simp: getResponse_def)

lemma enabled_reflects_stored_outside_fallback:
  assumes sub: "resolved_subscriber R command = Some sub"
    and branch: "subscriberPreferenceIsWhole
                   (Option.bind (stored_preference R command sub) pref_channels)
                   (Some (queryActiveChannels R command))
                 \<or> preferenceSettings (template command) \<noteq> None"
    and run: "execute R command = Inr r"
  shows "enabled (resp_preference r) =
           (case Option.bind (stored_preference R command sub) pref_enabled of
              Some b \<Rightarrow> b | None \<Rightarrow> True)"
  using branch run unfolding execute_found[OF sub] Let_def
  by (auto simp: getResponse_def split: if_splits option.splits)

subsection \<open>The batch\<close>

lemma Promise_all_map_Inr: "Promise_all (map Inr rs) = Inr rs"
  by (induction rs) simp_all

lemma Promise_all_Inr_D: "Promise_all ps = Inr rs \<Longrightarrow> ps = map Inr rs"
proof (induction ps arbitrary: rs)
  case Nil
  then show ?case by simp
next
  case (Cons p ps)
  then show ?case by (auto split: sum.splits)
qed

lemma Promise_all_Inr_iff: "Promise_all ps = Inr rs \<longleftrightarrow> ps = map Inr rs"
  using Promise_all_Inr_D Promise_all_map_Inr by blast

subsection \<open>Running the example\<close>

lemmas demo_defs =
  demo_repos_def demo_command_def demo_workflow_def demo_step_def demo_step_ref_def
  stored_sms_only_def stored_wrong_keys_def stored_disabled_def default_email_sms_def
  demo_batch_command_def

lemmas run_defs =
  execute_def resolved_subscriber_def queryActiveChannels_def Set_spread_def
  subscriberPreferenceIsWhole_def getResponse_def getNoSettingFallback_def
  filterActiveChannels_def fallback_channels_def mapResponseTemplate_def
  Object_assign_def Object_keys_def Let_def

lemma demo_active_channels:
  "queryActiveChannels (demo_repos sp d) (demo_command sid d') = [''email'', ''sms'']"
  by (simp add: run_defs demo_defs)

lemma demo_resolved_subscriber:
  "resolved_subscriber (demo_repos sp d) (demo_command ''sub1'' d') = Some \<lparr> sub_id = ''db1'' \<rparr>"
  by (simp add: run_defs demo_defs)

section \<open>The claims\<close>

text \<open>
  \<^bold>\<open>C1\<close> (wholeness short-circuit). When the stored preference has a channel map whose
  number of keys equals the number of resolved active channels, the resolution returns the
  stored map pruned to the active channels, whatever the workflow's default preference is
  (replacing the default by any other value, or by none, gives the same response). Only the
  counts are compared: when no stored key is an active channel, the returned map is empty.
\<close>

theorem whole_stored_preference_is_authoritative:
  assumes sub: "resolved_subscriber R command = Some sub"
    and stored: "stored_preference R command sub = Some sp"
    and chans: "pref_channels sp = Some ch"
    and wf: "distinct (map fst ch)"
    and whole: "length (Object_keys ch) = length (queryActiveChannels R command)"
  shows "\<exists>r. execute R command = Inr r
           \<and> channels (resp_preference r) = prune (queryActiveChannels R command) ch
           \<and> (\<forall>d. execute R (command\<lparr>template := (template command)\<lparr>preferenceSettings := d\<rparr>\<rparr>)
                     = Inr r)
           \<and> (set (Object_keys ch) \<inter> set (queryActiveChannels R command) = {}
                \<longrightarrow> channels (resp_preference r) = [])"
proof -
  let ?a = "queryActiveChannels R command"
  let ?r = "getResponse (mapResponseTemplate (template command))
              (case pref_enabled sp of Some b \<Rightarrow> b | None \<Rightarrow> True) (Some ch) ?a"
  have isWhole: "subscriberPreferenceIsWhole (Some ch) (Some ?a)"
    using whole by (simp add: subscriberPreferenceIsWhole_def)
  have run: "execute R command = Inr ?r"
    using stored chans isWhole by (simp add: execute_found[OF sub] Let_def)
  have ch: "channels (resp_preference ?r) = prune ?a ch"
    using wf by (simp add: getResponse_def filterActiveChannels_prune)
  have indep: "execute R (command\<lparr>template := (template command)\<lparr>preferenceSettings := d\<rparr>\<rparr>)
                 = Inr ?r" for d
  proof -
    let ?c = "command\<lparr>template := (template command)\<lparr>preferenceSettings := d\<rparr>\<rparr>"
    have s: "resolved_subscriber R ?c = Some sub"
      using sub by (simp add: resolved_subscriber_def cong: option.case_cong)
    have q: "queryActiveChannels R ?c = ?a"
      by (rule queryActiveChannels_preferenceSettings)
    have t: "mapResponseTemplate (template ?c) = mapResponseTemplate (template command)"
      by (simp add: mapResponseTemplate_def)
    have st: "stored_preference R ?c sub = Some sp"
      using stored by simp
    show ?thesis
      unfolding execute_found[OF s] q t st Let_def
      using chans isWhole by simp
  qed
  have empty: "channels (resp_preference ?r) = []"
    if "set (Object_keys ch) \<inter> set ?a = {}"
    using that ch by (simp add: prune_disjoint Object_keys_def)
  from run ch indep empty show ?thesis by blast
qed

theorem whole_stored_preference_is_authoritative_witness:
  "resolved_subscriber (demo_repos (Some stored_wrong_keys) None)
       (demo_command ''sub1'' (Some default_email_sms)) = Some \<lparr> sub_id = ''db1'' \<rparr>
   \<and> stored_preference (demo_repos (Some stored_wrong_keys) None)
       (demo_command ''sub1'' (Some default_email_sms)) \<lparr> sub_id = ''db1'' \<rparr> = Some stored_wrong_keys
   \<and> pref_channels stored_wrong_keys = Some [(''push'', True), (''chat'', False)]
   \<and> distinct (map fst [(''push'', True), (''chat'', False)])
   \<and> length (Object_keys [(''push'', True), (''chat'', False)])
       = length (queryActiveChannels (demo_repos (Some stored_wrong_keys) None)
                   (demo_command ''sub1'' (Some default_email_sms)))
   \<and> set (Object_keys [(''push'', True), (''chat'', False)])
       \<inter> set (queryActiveChannels (demo_repos (Some stored_wrong_keys) None)
                   (demo_command ''sub1'' (Some default_email_sms))) = {}
   \<and> map_sum id (\<lambda>r. channels (resp_preference r))
        (execute (demo_repos (Some stored_wrong_keys) None)
           (demo_command ''sub1'' (Some default_email_sms))) = Inr []
   \<and> execute (demo_repos (Some stored_wrong_keys) None)
        ((demo_command ''sub1'' (Some default_email_sms))
           \<lparr>template := (template (demo_command ''sub1'' (Some default_email_sms)))
                          \<lparr>preferenceSettings := None\<rparr>\<rparr>)
       = execute (demo_repos (Some stored_wrong_keys) None)
           (demo_command ''sub1'' (Some default_email_sms))"
proof -
  let ?R = "demo_repos (Some stored_wrong_keys) None"
  let ?c = "demo_command ''sub1'' (Some default_email_sms)"
  let ?ch = "[(''push'', True), (''chat'', False)]"
  have h1: "resolved_subscriber ?R ?c = Some \<lparr> sub_id = ''db1'' \<rparr>"
    by (rule demo_resolved_subscriber)
  have h2: "stored_preference ?R ?c \<lparr> sub_id = ''db1'' \<rparr> = Some stored_wrong_keys"
    by (simp add: demo_defs)
  have h3: "pref_channels stored_wrong_keys = Some ?ch"
    by (simp add: demo_defs)
  have h4: "distinct (map fst ?ch)"
    by simp
  have h5: "length (Object_keys ?ch) = length (queryActiveChannels ?R ?c)"
    by (simp add: demo_active_channels Object_keys_def)
  have h6: "set (Object_keys ?ch) \<inter> set (queryActiveChannels ?R ?c) = {}"
    by (simp add: demo_active_channels Object_keys_def)
  from whole_stored_preference_is_authoritative[OF h1 h2 h3 h4 h5] h6
  obtain r where run: "execute ?R ?c = Inr r"
    and empty: "channels (resp_preference r) = []"
    and indep: "execute ?R (?c\<lparr>template := (template ?c)\<lparr>preferenceSettings := None\<rparr>\<rparr>) = Inr r"
    by blast
  from h1 h2 h3 h4 h5 h6 run empty indep show ?thesis
    by simp
qed

text \<open>
  \<^bold>\<open>C2\<close> (the enabled flag). The claim asks that \<open>enabled\<close> equals the stored flag on every
  branch, the no-default fallback included. \<^verbatim>\<open>getNoSettingFallback\<close> passes the constant
  \<^verbatim>\<open>true\<close> where the three sibling branches pass \<^verbatim>\<open>subscriberPreferenceEnabled\<close>: for a
  stored preference with \<open>enabled = false\<close> and no channel map, on a workflow without default
  preference, the response says \<open>enabled = true\<close>. Lemma
  \<open>enabled_reflects_stored_outside_fallback\<close> above covers the other branches.
\<close>

theorem fallback_ignores_stored_enabled:
  "pref_enabled stored_disabled = Some False
   \<and> execute (demo_repos (Some stored_disabled) None) (demo_command ''sub1'' None)
       = Inr \<lparr> resp_template = \<lparr> rt_id = ''wf1'', rt_name = ''demo'', rt_critical = True \<rparr>,
               resp_preference = \<lparr> enabled = True,
                                   channels = [(''email'', True), (''sms'', True)],
                                   overrides = None \<rparr> \<rparr>"
  by (simp add: run_defs demo_defs)

text \<open>
  \<^bold>\<open>C3\<close> (pruning). Whatever the stored preference, the default preference and the workflow
  are, every key of the returned channel map is one of the resolved active channels.
\<close>

theorem resolved_channels_within_active:
  assumes "execute R command = Inr r"
  shows "set (Object_keys (channels (resp_preference r))) \<subseteq> set (queryActiveChannels R command)"
proof -
  from execute_returns_getResponse[OF assms] obtain e p where
    "r = getResponse (mapResponseTemplate (template command)) e p (queryActiveChannels R command)"
    by blast
  then show ?thesis
    using keys_filterActiveChannels[of "queryActiveChannels R command" p]
    by (simp add: getResponse_def)
qed

theorem resolved_channels_within_active_witness:
  "execute (demo_repos (Some stored_sms_only) None)
       (demo_command ''sub1'' (Some (default_email_sms @ [(''push'', True)])))
     = Inr \<lparr> resp_template = \<lparr> rt_id = ''wf1'', rt_name = ''demo'', rt_critical = True \<rparr>,
             resp_preference = \<lparr> enabled = True,
                                 channels = [(''email'', True), (''sms'', True)],
                                 overrides = None \<rparr> \<rparr>
   \<and> set (Object_keys [(''email'', True), (''sms'', True)])
       \<subseteq> set (queryActiveChannels (demo_repos (Some stored_sms_only) None)
                  (demo_command ''sub1'' (Some (default_email_sms @ [(''push'', True)]))))"
proof -
  let ?R = "demo_repos (Some stored_sms_only) None"
  let ?c = "demo_command ''sub1'' (Some (default_email_sms @ [(''push'', True)]))"
  let ?r = "\<lparr> resp_template = \<lparr> rt_id = ''wf1'', rt_name = ''demo'', rt_critical = True \<rparr>,
             resp_preference = \<lparr> enabled = True,
                                 channels = [(''email'', True), (''sms'', True)],
                                 overrides = None \<rparr> \<rparr>"
  have run: "execute ?R ?c = Inr ?r"
    by (simp add: run_defs demo_defs)
  from resolved_channels_within_active[OF run] run show ?thesis
    by simp
qed

text \<open>
  \<^bold>\<open>C4\<close> (partial stored preference). When the workflow has a default preference and the
  stored channel map has a number of keys different from the number of active channels, the
  value returned for an active channel is the stored value when the stored map defines the
  channel, else the default's value when the default defines it (else the channel is absent);
  the returned map has no repeated key.
\<close>

theorem partial_stored_preference_overlays_default:
  assumes sub: "resolved_subscriber R command = Some sub"
    and stored: "stored_preference R command sub = Some sp"
    and chans: "pref_channels sp = Some ch"
    and deflt: "preferenceSettings (template command) = Some d"
    and wf_ch: "distinct (map fst ch)"
    and wf_d: "distinct (map fst d)"
    and partial: "length (Object_keys ch) \<noteq> length (queryActiveChannels R command)"
  shows "\<exists>r. execute R command = Inr r
           \<and> distinct (map fst (channels (resp_preference r)))
           \<and> (\<forall>k \<in> set (queryActiveChannels R command).
                 map_of (channels (resp_preference r)) k =
                   (case map_of ch k of Some v \<Rightarrow> Some v | None \<Rightarrow> map_of d k))"
proof -
  let ?a = "queryActiveChannels R command"
  let ?m = "Object_assign (Object_assign [] d) ch"
  let ?r = "getResponse (mapResponseTemplate (template command))
              (case pref_enabled sp of Some b \<Rightarrow> b | None \<Rightarrow> True) (Some ?m) ?a"
  have notWhole: "\<not> subscriberPreferenceIsWhole (Some ch) (Some ?a)"
    using partial by (simp add: subscriberPreferenceIsWhole_def)
  have run: "execute R command = Inr ?r"
    using stored chans deflt notWhole by (simp add: execute_found[OF sub] Let_def)
  have wf_m: "distinct (map fst ?m)"
    by (simp add: distinct_Object_assign)
  have res: "channels (resp_preference ?r) = prune ?a ?m"
    using wf_m by (simp add: getResponse_def filterActiveChannels_prune)
  have m: "map_of ?m = map_of d ++ map_of ch"
    using wf_ch wf_d by (simp add: map_of_Object_assign Object_assign_copy)
  have look: "map_of (channels (resp_preference ?r)) k =
                (case map_of ch k of Some v \<Rightarrow> Some v | None \<Rightarrow> map_of d k)"
    if "k \<in> set ?a" for k
    using that by (simp add: res map_of_prune m map_add_def split: option.splits)
  have "distinct (map fst (channels (resp_preference ?r)))"
    using wf_m by (simp add: res distinct_prune)
  with run look show ?thesis by blast
qed

theorem partial_stored_preference_overlays_default_witness:
  "resolved_subscriber (demo_repos (Some stored_sms_only) None)
       (demo_command ''sub1'' (Some default_email_sms)) = Some \<lparr> sub_id = ''db1'' \<rparr>
   \<and> stored_preference (demo_repos (Some stored_sms_only) None)
       (demo_command ''sub1'' (Some default_email_sms)) \<lparr> sub_id = ''db1'' \<rparr> = Some stored_sms_only
   \<and> pref_channels stored_sms_only = Some [(''sms'', True)]
   \<and> preferenceSettings (template (demo_command ''sub1'' (Some default_email_sms)))
       = Some [(''email'', True), (''sms'', False)]
   \<and> distinct (map fst [(''sms'', True)])
   \<and> distinct (map fst [(''email'', True), (''sms'', False)])
   \<and> length (Object_keys [(''sms'', True)])
       \<noteq> length (queryActiveChannels (demo_repos (Some stored_sms_only) None)
                   (demo_command ''sub1'' (Some default_email_sms)))
   \<and> queryActiveChannels (demo_repos (Some stored_sms_only) None)
        (demo_command ''sub1'' (Some default_email_sms)) = [''email'', ''sms'']
   \<and> map_sum id (\<lambda>r. map (map_of (channels (resp_preference r))) [''email'', ''sms''])
        (execute (demo_repos (Some stored_sms_only) None)
           (demo_command ''sub1'' (Some default_email_sms)))
       = Inr [Some True, Some True]"
proof -
  let ?R = "demo_repos (Some stored_sms_only) None"
  let ?c = "demo_command ''sub1'' (Some default_email_sms)"
  have h1: "resolved_subscriber ?R ?c = Some \<lparr> sub_id = ''db1'' \<rparr>"
    by (rule demo_resolved_subscriber)
  have h2: "stored_preference ?R ?c \<lparr> sub_id = ''db1'' \<rparr> = Some stored_sms_only"
    by (simp add: demo_defs)
  have h3: "pref_channels stored_sms_only = Some [(''sms'', True)]"
    by (simp add: demo_defs)
  have h4: "preferenceSettings (template ?c) = Some [(''email'', True), (''sms'', False)]"
    by (simp add: demo_defs)
  have h5: "distinct (map fst [(''sms'', True)])"
    by simp
  have h6: "distinct (map fst [(''email'', True), (''sms'', False)])"
    by simp
  have a: "queryActiveChannels ?R ?c = [''email'', ''sms'']"
    by (rule demo_active_channels)
  have h7: "length (Object_keys [(''sms'', True)]) \<noteq> length (queryActiveChannels ?R ?c)"
    by (simp add: a Object_keys_def)
  from partial_stored_preference_overlays_default[OF h1 h2 h3 h4 h5 h6 h7]
  obtain r where run: "execute ?R ?c = Inr r"
    and look: "\<forall>k \<in> set (queryActiveChannels ?R ?c).
                 map_of (channels (resp_preference r)) k =
                   (case map_of [(''sms'', True)] k of
                      Some v \<Rightarrow> Some v
                    | None \<Rightarrow> map_of [(''email'', True), (''sms'', False)] k)"
    by blast
  from look have "map (map_of (channels (resp_preference r))) [''email'', ''sms'']
                    = [Some True, Some True]"
    by (simp add: a)
  with h1 h2 h3 h4 h5 h6 h7 a run show ?thesis
    by simp
qed

text \<open>
  \<^bold>\<open>C5\<close> (no preference at all). With no stored preference and no default preference the
  resolution returns the hard-coded map, every channel set to true, pruned to the active
  channels, and \<open>enabled\<close> is true.
\<close>

theorem no_preferences_fallback:
  assumes sub: "resolved_subscriber R command = Some sub"
    and no_stored: "stored_preference R command sub = None"
    and no_default: "preferenceSettings (template command) = None"
  shows "\<exists>r. execute R command = Inr r
           \<and> channels (resp_preference r) =
               prune (queryActiveChannels R command)
                 [(''email'', True), (''sms'', True), (''in_app'', True), (''chat'', True), (''push'', True)]
           \<and> enabled (resp_preference r) = True"
proof -
  have wf: "distinct (map fst fallback_channels)"
    by (simp add: fallback_channels_def)
  show ?thesis
    using no_stored no_default
    by (simp add: execute_found[OF sub] Let_def subscriberPreferenceIsWhole_def
        getNoSettingFallback_def getResponse_def filterActiveChannels_prune[OF wf])
      (simp add: fallback_channels_def)
qed

theorem no_preferences_fallback_witness:
  "resolved_subscriber (demo_repos None None) (demo_command ''sub1'' None)
       = Some \<lparr> sub_id = ''db1'' \<rparr>
   \<and> stored_preference (demo_repos None None) (demo_command ''sub1'' None)
       \<lparr> sub_id = ''db1'' \<rparr> = None
   \<and> preferenceSettings (template (demo_command ''sub1'' None)) = None
   \<and> map_sum id (\<lambda>r. (channels (resp_preference r), enabled (resp_preference r)))
        (execute (demo_repos None None) (demo_command ''sub1'' None))
       = Inr ([(''email'', True), (''sms'', True)], True)"
proof -
  let ?R = "demo_repos None None"
  let ?c = "demo_command ''sub1'' None"
  have h1: "resolved_subscriber ?R ?c = Some \<lparr> sub_id = ''db1'' \<rparr>"
    by (rule demo_resolved_subscriber)
  have h2: "stored_preference ?R ?c \<lparr> sub_id = ''db1'' \<rparr> = None"
    by (simp add: demo_defs)
  have h3: "preferenceSettings (template ?c) = None"
    by (simp add: demo_defs)
  from no_preferences_fallback[OF h1 h2 h3]
  obtain r where run: "execute ?R ?c = Inr r"
    and ch: "channels (resp_preference r) =
               prune (queryActiveChannels ?R ?c)
                 [(''email'', True), (''sms'', True), (''in_app'', True), (''chat'', True),
                  (''push'', True)]"
    and en: "enabled (resp_preference r) = True"
    by blast
  from ch have "channels (resp_preference r) = [(''email'', True), (''sms'', True)]"
    by (simp add: demo_active_channels prune_def)
  with h1 h2 h3 run en show ?thesis
    by simp
qed

text \<open>
  \<^bold>\<open>C6\<close> (active channels). The resolved list has no repetition; it depends on the active
  steps only (a workflow with other steps but the same active ones resolves to the same list);
  when every active step embeds its message template the list is the step types in
  first-seen order; when an active step does not, the list is the types of the message
  templates that the repository finds for the ids of the active steps, each type once, in the
  order found; with no active step it is empty.
\<close>

theorem active_channels_deduplicated_from_active_steps:
  "distinct (queryActiveChannels R command)
   \<and> (\<forall>ss. filter (\<lambda>step. active step = JBool True) ss = activeSteps_of (template command)
          \<longrightarrow> queryActiveChannels R (command\<lparr>template := (template command)\<lparr>steps := ss\<rparr>\<rparr>)
                = queryActiveChannels R command)
   \<and> ((\<forall>step \<in> set (activeSteps_of (template command)). step_template step \<noteq> None)
          \<longrightarrow> queryActiveChannels R command
                = first_seen (map (\<lambda>step. mt_type (the (step_template step)))
                                (activeSteps_of (template command))))
   \<and> ((\<exists>step \<in> set (activeSteps_of (template command)). step_template step = None)
          \<longrightarrow> queryActiveChannels R command
                = first_seen (map mt_type
                    (find_mt R (environmentId command)
                       (map step_templateId (activeSteps_of (template command))))))
   \<and> (activeSteps_of (template command) = [] \<longrightarrow> queryActiveChannels R command = [])"
proof (intro conjI allI impI)
  show "distinct (queryActiveChannels R command)"
    by (rule queryActiveChannels_distinct)
next
  fix ss
  assume "filter (\<lambda>step. active step = JBool True) ss = activeSteps_of (template command)"
  then have "activeSteps_of ((template command)\<lparr>steps := ss\<rparr>) = activeSteps_of (template command)"
    by simp
  from queryActiveChannels_depends_on_active_steps[OF this, of R command]
  show "queryActiveChannels R (command\<lparr>template := (template command)\<lparr>steps := ss\<rparr>\<rparr>)
          = queryActiveChannels R command"
    by simp
next
  assume "\<forall>step \<in> set (activeSteps_of (template command)). step_template step \<noteq> None"
  then show "queryActiveChannels R command
               = first_seen (map (\<lambda>step. mt_type (the (step_template step)))
                               (activeSteps_of (template command)))"
    by (auto simp: queryActiveChannels_cases)
next
  assume "\<exists>step \<in> set (activeSteps_of (template command)). step_template step = None"
  then show "queryActiveChannels R command
               = first_seen (map mt_type
                   (find_mt R (environmentId command)
                      (map step_templateId (activeSteps_of (template command)))))"
    by (simp only: queryActiveChannels_cases if_True)
next
  assume "activeSteps_of (template command) = []"
  then show "queryActiveChannels R command = []"
    by (simp add: queryActiveChannels_cases)
qed

theorem active_channels_deduplicated_from_active_steps_witness:
  "distinct (queryActiveChannels (demo_repos None None)
       ((demo_command ''sub1'' None)\<lparr>template := (demo_workflow None)\<lparr>steps :=
          [demo_step (JBool True) ''sms'', demo_step (JBool False) ''push'',
           demo_step (JBool True) ''email'', demo_step (JBool True) ''sms'']\<rparr>\<rparr>))
   \<and> filter (\<lambda>step. active step = JBool True)
         [demo_step (JBool True) ''sms'', demo_step (JBool True) ''email'',
          demo_step JNull ''chat'', demo_step (JBool True) ''sms'']
       = [demo_step (JBool True) ''sms'', demo_step (JBool True) ''email'',
          demo_step (JBool True) ''sms'']
   \<and> queryActiveChannels (demo_repos None None)
       ((demo_command ''sub1'' None)\<lparr>template := (demo_workflow None)\<lparr>steps :=
          [demo_step (JBool True) ''sms'', demo_step (JBool True) ''email'',
           demo_step JNull ''chat'', demo_step (JBool True) ''sms'']\<rparr>\<rparr>)
       = queryActiveChannels (demo_repos None None)
       ((demo_command ''sub1'' None)\<lparr>template := (demo_workflow None)\<lparr>steps :=
          [demo_step (JBool True) ''sms'', demo_step (JBool False) ''push'',
           demo_step (JBool True) ''email'', demo_step (JBool True) ''sms'']\<rparr>\<rparr>)
   \<and> list_all (\<lambda>step. step_template step \<noteq> None)
         [demo_step (JBool True) ''sms'', demo_step (JBool True) ''email'',
          demo_step (JBool True) ''sms'']
   \<and> queryActiveChannels (demo_repos None None)
       ((demo_command ''sub1'' None)\<lparr>template := (demo_workflow None)\<lparr>steps :=
          [demo_step (JBool True) ''sms'', demo_step (JBool False) ''push'',
           demo_step (JBool True) ''email'', demo_step (JBool True) ''sms'']\<rparr>\<rparr>)
       = [''sms'', ''email'']
   \<and> activeSteps_of ((demo_workflow None)\<lparr>steps :=
          [demo_step (JBool False) ''push'', demo_step JUndefined ''chat'']\<rparr>) = []
   \<and> queryActiveChannels (demo_repos None None)
       ((demo_command ''sub1'' None)\<lparr>template := (demo_workflow None)\<lparr>steps :=
          [demo_step (JBool False) ''push'', demo_step JUndefined ''chat'']\<rparr>\<rparr>) = []
   \<and> activeSteps_of ((demo_workflow None)\<lparr>steps :=
          [demo_step_ref (JBool True) ''sms'', demo_step_ref (JBool True) ''push'',
           demo_step_ref (JBool False) ''chat'', demo_step_ref (JBool True) ''sms'']\<rparr>)
       = [demo_step_ref (JBool True) ''sms'', demo_step_ref (JBool True) ''push'',
          demo_step_ref (JBool True) ''sms'']
   \<and> list_ex (\<lambda>step. step_template step = None)
         [demo_step_ref (JBool True) ''sms'', demo_step_ref (JBool True) ''push'',
          demo_step_ref (JBool True) ''sms'']
   \<and> map mt_type (find_mt (demo_repos None None) ''env'' [''mt_sms'', ''mt_push'', ''mt_sms''])
       = [''sms'', ''push'', ''sms'']
   \<and> queryActiveChannels (demo_repos None None)
       ((demo_command ''sub1'' None)\<lparr>template := (demo_workflow None)\<lparr>steps :=
          [demo_step_ref (JBool True) ''sms'', demo_step_ref (JBool True) ''push'',
           demo_step_ref (JBool False) ''chat'', demo_step_ref (JBool True) ''sms'']\<rparr>\<rparr>)
       = [''sms'', ''push'']"
proof -
  let ?R = "demo_repos None None"
  let ?c1 = "(demo_command ''sub1'' None)\<lparr>template := (demo_workflow None)\<lparr>steps :=
          [demo_step (JBool True) ''sms'', demo_step (JBool False) ''push'',
           demo_step (JBool True) ''email'', demo_step (JBool True) ''sms'']\<rparr>\<rparr>"
  let ?ss = "[demo_step (JBool True) ''sms'', demo_step (JBool True) ''email'',
              demo_step JNull ''chat'', demo_step (JBool True) ''sms'']"
  let ?act = "[demo_step (JBool True) ''sms'', demo_step (JBool True) ''email'',
               demo_step (JBool True) ''sms'']"
  let ?c2 = "(demo_command ''sub1'' None)\<lparr>template := (demo_workflow None)\<lparr>steps :=
          [demo_step (JBool False) ''push'', demo_step JUndefined ''chat'']\<rparr>\<rparr>"
  have act1: "activeSteps_of (template ?c1) = ?act"
    by (simp add: demo_step_def)
  have same: "filter (\<lambda>step. active step = JBool True) ?ss = activeSteps_of (template ?c1)"
    by (simp add: demo_step_def)
  have embedded: "\<forall>step \<in> set (activeSteps_of (template ?c1)). step_template step \<noteq> None"
    by (simp add: demo_step_def)
  have act2: "activeSteps_of (template ?c2) = []"
    by (simp add: demo_step_def)
  note t1 = active_channels_deduplicated_from_active_steps[of ?R ?c1]
  note t2 = active_channels_deduplicated_from_active_steps[of ?R ?c2]
  let ?c3 = "(demo_command ''sub1'' None)\<lparr>template := (demo_workflow None)\<lparr>steps :=
          [demo_step_ref (JBool True) ''sms'', demo_step_ref (JBool True) ''push'',
           demo_step_ref (JBool False) ''chat'', demo_step_ref (JBool True) ''sms'']\<rparr>\<rparr>"
  let ?act3 = "[demo_step_ref (JBool True) ''sms'', demo_step_ref (JBool True) ''push'',
                demo_step_ref (JBool True) ''sms'']"
  note t3 = active_channels_deduplicated_from_active_steps[of ?R ?c3]
  have act3: "activeSteps_of (template ?c3) = ?act3"
    by (simp add: demo_step_ref_def)
  have missing: "\<exists>step \<in> set (activeSteps_of (template ?c3)). step_template step = None"
    by (simp add: demo_step_ref_def)
  have found3: "map mt_type (find_mt ?R ''env'' [''mt_sms'', ''mt_push'', ''mt_sms''])
                  = [''sms'', ''push'', ''sms'']"
    by (simp add: demo_repos_def)
  from t3 missing have "queryActiveChannels ?R ?c3
      = first_seen (map mt_type (find_mt ?R (environmentId ?c3)
                      (map step_templateId (activeSteps_of (template ?c3)))))"
    by blast
  then have lookup: "queryActiveChannels ?R ?c3 = [''sms'', ''push'']"
    by (simp add: demo_step_ref_def demo_repos_def)
  have act3': "activeSteps_of ((demo_workflow None)\<lparr>steps :=
          [demo_step_ref (JBool True) ''sms'', demo_step_ref (JBool True) ''push'',
           demo_step_ref (JBool False) ''chat'', demo_step_ref (JBool True) ''sms'']\<rparr>) = ?act3"
    by (simp add: demo_step_ref_def)
  have missing': "list_ex (\<lambda>step. step_template step = None) ?act3"
    by (simp add: demo_step_ref_def)
  from t1 have d: "distinct (queryActiveChannels ?R ?c1)"
    by blast
  from t1 same have inv:
    "queryActiveChannels ?R (?c1\<lparr>template := (template ?c1)\<lparr>steps := ?ss\<rparr>\<rparr>)
       = queryActiveChannels ?R ?c1"
    by blast
  from t1 embedded have "queryActiveChannels ?R ?c1
      = first_seen (map (\<lambda>step. mt_type (the (step_template step))) (activeSteps_of (template ?c1)))"
    by blast
  then have order: "queryActiveChannels ?R ?c1 = [''sms'', ''email'']"
    by (simp add: demo_step_def)
  from t2 act2 have none: "queryActiveChannels ?R ?c2 = []"
    by blast
  have emb': "list_all (\<lambda>step. step_template step \<noteq> None) ?act"
    by (simp add: demo_step_def)
  have same': "filter (\<lambda>step. active step = JBool True) ?ss = ?act"
    by (simp add: demo_step_def)
  have act2': "activeSteps_of ((demo_workflow None)\<lparr>steps :=
          [demo_step (JBool False) ''push'', demo_step JUndefined ''chat'']\<rparr>) = []"
    by (simp add: demo_step_def)
  have inv': "queryActiveChannels ?R
       ((demo_command ''sub1'' None)\<lparr>template := (demo_workflow None)\<lparr>steps := ?ss\<rparr>\<rparr>)
       = queryActiveChannels ?R ?c1"
    using inv by (simp add: demo_command_def)
  from d same' inv' emb' order act2' none act3' missing' found3 lookup show ?thesis
    by (intro conjI)
qed

text \<open>
  \<^bold>\<open>C7\<close> (override metadata). The response interface declares
  \<^verbatim>\<open>overrides: IPreferenceOverride[]\<close>; the object that \<^verbatim>\<open>getResponse\<close> builds has the
  properties \<^verbatim>\<open>enabled\<close> and \<^verbatim>\<open>channels\<close> only. On the end-to-end example (default
  \<open>{email: true, sms: false}\<close>, stored \<open>{sms: true}\<close>) the response carries the merged channels
  and no override metadata; lemma \<open>execute_never_sets_overrides\<close> above says so of every
  response.
\<close>

theorem response_carries_no_overrides:
  "execute (demo_repos (Some stored_sms_only) None) (demo_command ''sub1'' (Some default_email_sms))
     = Inr \<lparr> resp_template = \<lparr> rt_id = ''wf1'', rt_name = ''demo'', rt_critical = True \<rparr>,
             resp_preference = \<lparr> enabled = True,
                                 channels = [(''email'', True), (''sms'', True)],
                                 overrides = None \<rparr> \<rparr>"
  by (simp add: run_defs demo_defs)

text \<open>
  \<^bold>\<open>C8\<close> (subscriber not found). The resolution fails exactly when the command carries no
  subscriber and the repository finds none; the error is then the exception
  \<^verbatim>\<open>Subscriber <subscriberId> not found\<close> and no response is returned; with a subscriber in
  the command a response is returned.
\<close>

theorem subscriber_not_found_exactly_when_absent:
  "((\<exists>e. execute R command = Inl e) \<longleftrightarrow>
      (subscriber command = None
       \<and> findBySubscriberId R (environmentId command) (subscriberId command) = None))
   \<and> (\<forall>e. execute R command = Inl e \<longrightarrow>
          e = ApiException (''Subscriber '' @ subscriberId command @ '' not found'')
          \<and> (\<forall>r. execute R command \<noteq> Inr r))
   \<and> (subscriber command \<noteq> None \<longrightarrow> (\<exists>r. execute R command = Inr r))"
proof (cases "resolved_subscriber R command")
  case None
  then have "subscriber command = None
      \<and> findBySubscriberId R (environmentId command) (subscriberId command) = None"
    by (simp add: resolved_subscriber_def split: option.splits)
  then show ?thesis by (simp add: execute_not_found[OF None])
next
  case (Some sub)
  then have absent: "\<not> (subscriber command = None
      \<and> findBySubscriberId R (environmentId command) (subscriberId command) = None)"
    by (simp add: resolved_subscriber_def split: option.splits)
  have "\<exists>r. execute R command = Inr r"
    unfolding execute_found[OF Some] Let_def
    by (simp split: option.splits)
  then show ?thesis using absent by auto
qed

theorem subscriber_not_found_exactly_when_absent_witness:
  "subscriber (demo_command ''sub2'' None) = None
   \<and> findBySubscriberId (demo_repos None None) (environmentId (demo_command ''sub2'' None))
        (subscriberId (demo_command ''sub2'' None)) = None
   \<and> execute (demo_repos None None) (demo_command ''sub2'' None)
       = Inl (ApiException ''Subscriber sub2 not found'')
   \<and> subscriber ((demo_command ''sub2'' None)\<lparr>subscriber := Some \<lparr> sub_id = ''db2'' \<rparr>\<rparr>) \<noteq> None
   \<and> isl (execute (demo_repos None None)
             ((demo_command ''sub2'' None)\<lparr>subscriber := Some \<lparr> sub_id = ''db2'' \<rparr>\<rparr>)) = False"
proof -
  let ?R = "demo_repos None None"
  let ?c = "demo_command ''sub2'' None"
  let ?c' = "?c\<lparr>subscriber := Some \<lparr> sub_id = ''db2'' \<rparr>\<rparr>"
  have h1: "subscriber ?c = None"
    by (simp add: demo_defs)
  have h2: "findBySubscriberId ?R (environmentId ?c) (subscriberId ?c) = None"
    by (simp add: demo_defs)
  have h3: "subscriber ?c' \<noteq> None"
    by simp
  from subscriber_not_found_exactly_when_absent[of ?R ?c] h1 h2
  obtain e where e: "execute ?R ?c = Inl e"
    by blast
  with subscriber_not_found_exactly_when_absent[of ?R ?c]
  have "e = ApiException (''Subscriber '' @ subscriberId ?c @ '' not found'')"
    by blast
  then have msg: "e = ApiException ''Subscriber sub2 not found''"
    by (simp add: demo_defs)
  from subscriber_not_found_exactly_when_absent[of ?R ?c'] h3
  obtain r where "execute ?R ?c' = Inr r"
    by blast
  with h1 h2 h3 e msg show ?thesis
    by simp
qed

text \<open>
  \<^bold>\<open>C9\<close> (batch order). The batch returns the list \<open>rs\<close> exactly when \<open>rs\<close> has one
  response per fetched workflow and its i-th element is the resolution of the i-th workflow;
  when the subscriber exists the batch does return a list.
\<close>

theorem batch_one_response_per_workflow_in_order:
  "(snd (execute_batch R command) = Inr rs \<longleftrightarrow>
      length rs = length (activeWorkflows R command)
      \<and> (\<forall>i < length (activeWorkflows R command).
             execute R (create command (activeWorkflows R command ! i)) = Inr (rs ! i)))
   \<and> (findBySubscriberId R (b_environmentId command) (b_subscriberId command) \<noteq> None
        \<longrightarrow> (\<exists>rs'. snd (execute_batch R command) = Inr rs'))"
proof
  show "snd (execute_batch R command) = Inr rs \<longleftrightarrow>
      length rs = length (activeWorkflows R command)
      \<and> (\<forall>i < length (activeWorkflows R command).
             execute R (create command (activeWorkflows R command ! i)) = Inr (rs ! i))"
    by (auto simp: execute_batch_def Let_def Promise_all_Inr_iff list_eq_iff_nth_eq)
next
  show "findBySubscriberId R (b_environmentId command) (b_subscriberId command) \<noteq> None
        \<longrightarrow> (\<exists>rs'. snd (execute_batch R command) = Inr rs')"
  proof
    assume found: "findBySubscriberId R (b_environmentId command) (b_subscriberId command) \<noteq> None"
    have "\<exists>r. execute R (create command t) = Inr r" for t
    proof -
      from found obtain sub where "resolved_subscriber R (create command t) = Some sub"
        by (auto simp: resolved_subscriber_def create_def)
      then show ?thesis
        unfolding execute_found[OF \<open>resolved_subscriber R (create command t) = Some sub\<close>] Let_def
        by (simp split: option.splits)
    qed
    then obtain f where f: "\<And>t. execute R (create command t) = Inr (f t)"
      by metis
    have "map (\<lambda>tmpl. execute R (create command tmpl)) (activeWorkflows R command)
            = map Inr (map f (activeWorkflows R command))"
      by (simp add: f)
    then have "Promise_all (map (\<lambda>tmpl. execute R (create command tmpl)) (activeWorkflows R command))
                 = Inr (map f (activeWorkflows R command))"
      by (simp only: Promise_all_Inr_iff)
    then show "\<exists>rs'. snd (execute_batch R command) = Inr rs'"
      by (simp add: execute_batch_def Let_def)
  qed
qed

theorem batch_one_response_per_workflow_in_order_witness:
  "findBySubscriberId (demo_repos None (Some default_email_sms))
       (b_environmentId demo_batch_command) (b_subscriberId demo_batch_command) \<noteq> None
   \<and> activeWorkflows (demo_repos None (Some default_email_sms)) demo_batch_command
       = [demo_workflow (Some default_email_sms), demo_workflow None]
   \<and> snd (execute_batch (demo_repos None (Some default_email_sms)) demo_batch_command)
       = Inr [\<lparr> resp_template = \<lparr> rt_id = ''wf1'', rt_name = ''demo'', rt_critical = True \<rparr>,
                resp_preference = \<lparr> enabled = True,
                                    channels = [(''email'', True), (''sms'', False)],
                                    overrides = None \<rparr> \<rparr>,
              \<lparr> resp_template = \<lparr> rt_id = ''wf1'', rt_name = ''demo'', rt_critical = True \<rparr>,
                resp_preference = \<lparr> enabled = True,
                                    channels = [(''email'', True), (''sms'', True)],
                                    overrides = None \<rparr> \<rparr>]
   \<and> execute (demo_repos None (Some default_email_sms))
        (create demo_batch_command (demo_workflow (Some default_email_sms)))
       = Inr \<lparr> resp_template = \<lparr> rt_id = ''wf1'', rt_name = ''demo'', rt_critical = True \<rparr>,
               resp_preference = \<lparr> enabled = True,
                                   channels = [(''email'', True), (''sms'', False)],
                                   overrides = None \<rparr> \<rparr>
   \<and> execute (demo_repos None (Some default_email_sms))
        (create demo_batch_command (demo_workflow None))
       = Inr \<lparr> resp_template = \<lparr> rt_id = ''wf1'', rt_name = ''demo'', rt_critical = True \<rparr>,
               resp_preference = \<lparr> enabled = True,
                                   channels = [(''email'', True), (''sms'', True)],
                                   overrides = None \<rparr> \<rparr>"
proof -
  let ?R = "demo_repos None (Some default_email_sms)"
  let ?c = demo_batch_command
  let ?r1 = "\<lparr> resp_template = \<lparr> rt_id = ''wf1'', rt_name = ''demo'', rt_critical = True \<rparr>,
               resp_preference = \<lparr> enabled = True,
                                   channels = [(''email'', True), (''sms'', False)],
                                   overrides = None \<rparr> \<rparr>"
  let ?r2 = "\<lparr> resp_template = \<lparr> rt_id = ''wf1'', rt_name = ''demo'', rt_critical = True \<rparr>,
               resp_preference = \<lparr> enabled = True,
                                   channels = [(''email'', True), (''sms'', True)],
                                   overrides = None \<rparr> \<rparr>"
  have found: "findBySubscriberId ?R (b_environmentId ?c) (b_subscriberId ?c) \<noteq> None"
    by (simp add: demo_defs)
  have wfs: "activeWorkflows ?R ?c = [demo_workflow (Some default_email_sms), demo_workflow None]"
    by (simp add: demo_repos_def)
  have e1: "execute ?R (create ?c (demo_workflow (Some default_email_sms))) = Inr ?r1"
    by (simp add: run_defs demo_defs create_def)
  have e2: "execute ?R (create ?c (demo_workflow None)) = Inr ?r2"
    by (simp add: run_defs demo_defs create_def)
  have "length [?r1, ?r2] = length (activeWorkflows ?R ?c)
        \<and> (\<forall>i < length (activeWorkflows ?R ?c).
               execute ?R (create ?c (activeWorkflows ?R ?c ! i)) = Inr ([?r1, ?r2] ! i))"
    using e1 e2 by (simp add: wfs less_Suc_eq)
  with batch_one_response_per_workflow_in_order[of ?R ?c "[?r1, ?r2]"]
  have run: "snd (execute_batch ?R ?c) = Inr [?r1, ?r2]"
    by blast
  from found wfs run e1 e2 show ?thesis
    by (intro conjI)
qed

text \<open>
  \<^bold>\<open>C10\<close> (strict comparison with true). A step whose \<open>active\<close> attribute is anything but
  the boolean true (absent, null, false, a number, a string) is dropped by the step filter, so
  the workflow resolves to the same active channels as the workflow without that step, on the
  direct path and on the message-template lookup path alike.
\<close>

theorem step_not_strictly_true_contributes_nothing:
  assumes "active s \<noteq> JBool True"
  shows "activeSteps_of ((template command)\<lparr>steps := pre @ s # post\<rparr>)
           = activeSteps_of ((template command)\<lparr>steps := pre @ post\<rparr>)
       \<and> queryActiveChannels R (command\<lparr>template := (template command)\<lparr>steps := pre @ s # post\<rparr>\<rparr>)
           = queryActiveChannels R (command\<lparr>template := (template command)\<lparr>steps := pre @ post\<rparr>\<rparr>)"
proof -
  have a: "activeSteps_of ((template command)\<lparr>steps := pre @ s # post\<rparr>)
             = activeSteps_of ((template command)\<lparr>steps := pre @ post\<rparr>)"
    using assms by simp
  from a queryActiveChannels_depends_on_active_steps[OF a, of R command] show ?thesis
    by simp
qed

theorem step_not_strictly_true_contributes_nothing_witness:
  "active (demo_step (JNumber 1) ''chat'') \<noteq> JBool True
   \<and> queryActiveChannels (demo_repos None None)
       ((demo_command ''sub1'' None)\<lparr>template := (template (demo_command ''sub1'' None))\<lparr>steps :=
          [demo_step (JBool True) ''email''] @ demo_step (JNumber 1) ''chat''
            # [demo_step (JBool True) ''sms'']\<rparr>\<rparr>)
       = [''email'', ''sms'']
   \<and> active (demo_step_ref JNull ''chat'') \<noteq> JBool True
   \<and> queryActiveChannels (demo_repos None None)
       ((demo_command ''sub1'' None)\<lparr>template := (template (demo_command ''sub1'' None))\<lparr>steps :=
          [demo_step_ref (JBool True) ''email''] @ demo_step_ref JNull ''chat'' # []\<rparr>\<rparr>)
       = [''email'']"
proof -
  let ?R = "demo_repos None None"
  let ?c = "demo_command ''sub1'' None"
  have h1: "active (demo_step (JNumber 1) ''chat'') \<noteq> JBool True"
    by (simp add: demo_step_def)
  have h2: "active (demo_step_ref JNull ''chat'') \<noteq> JBool True"
    by (simp add: demo_step_ref_def)
  have e1: "queryActiveChannels ?R (?c\<lparr>template := (template ?c)\<lparr>steps :=
              [demo_step (JBool True) ''email''] @ [demo_step (JBool True) ''sms'']\<rparr>\<rparr>)
            = [''email'', ''sms'']"
    by (simp add: run_defs demo_defs)
  have e2: "queryActiveChannels ?R (?c\<lparr>template := (template ?c)\<lparr>steps :=
              [demo_step_ref (JBool True) ''email''] @ []\<rparr>\<rparr>)
            = [''email'']"
    by (simp add: run_defs demo_defs)
  from step_not_strictly_true_contributes_nothing[OF h1, where command = ?c and R = ?R
         and pre = "[demo_step (JBool True) ''email'']" and post = "[demo_step (JBool True) ''sms'']"]
       step_not_strictly_true_contributes_nothing[OF h2, where command = ?c and R = ?R
         and pre = "[demo_step_ref (JBool True) ''email'']" and post = "[]"]
       h1 h2 e1 e2
  show ?thesis
    by simp
qed

end
